theory Spec2Isabelle
  imports Main
begin

section \<open>Time\<close>

text \<open>
  Every reading of the wall clock (\<^verbatim>\<open>new Date()\<close>, \<^verbatim>\<open>Date.now()\<close>) is an explicit
  argument \<open>now\<close>: milliseconds since the epoch, as JavaScript counts them (every UTC day
  has 86400000 of them). One request is handled at one instant.

  The source keeps dates as ISO strings. The model keeps the number the string is
  printed from: a \<^verbatim>\<open>YYYY-MM-DD\<close> string is the number of its UTC day, an ISO timestamp
  is its instant in milliseconds. Both printings are injective, so \<^verbatim>\<open>===\<close> on the
  strings is equality of the numbers.
\<close>

definition MS_PER_DAY :: int where
  "MS_PER_DAY = 86400000"

definition getTodayUTC :: "int \<Rightarrow> int" where
  \<comment> \<open>\<^verbatim>\<open>new Date().toISOString().split("T")[0]\<close>\<close>
  "getTodayUTC now = now div MS_PER_DAY"

definition getNextMidnightUTC :: "int \<Rightarrow> int" where
  \<comment> \<open>the day after today, at 00:00:00.000 UTC\<close>
  "getNextMidnightUTC now = (now div MS_PER_DAY + 1) * MS_PER_DAY"


section \<open>The rate limiter (rate-limiter.ts)\<close>

text \<open>The value stored under the key \<^verbatim>\<open>"counter"\<close> of the Durable Object's storage.\<close>

record counter =
  date :: int
  count :: int

text \<open>
  \<^verbatim>\<open>RateLimitStatus\<close> (types.ts). The three fields that the response envelopes copy
  are the parent record.
\<close>

record RateLimitInfo =
  remaining :: int
  limit :: int
  resetsAt :: int

record RateLimitStatus = RateLimitInfo +
  allowed :: bool

text \<open>
  The methods of \<^verbatim>\<open>RateLimiter\<close>. \<open>lim\<close> is \<^verbatim>\<open>this.limit\<close>, the integer that the
  constructor parsed from the configuration; \<open>stored\<close> is what
  \<^verbatim>\<open>this.state.storage.get("counter")\<close> returns (\<open>None\<close> for \<^verbatim>\<open>undefined\<close>). Each method
  returns the JSON of its response and the storage it leaves. Counts and limits are
  integers (JavaScript numbers are exact on them up to 2^53); a configuration from which
  \<^verbatim>\<open>parseInt\<close> yields \<^verbatim>\<open>NaN\<close> is not modelled.
\<close>

definition checkAndIncrement ::
  "int \<Rightarrow> int \<Rightarrow> counter option \<Rightarrow> RateLimitStatus \<times> counter option" where
  "checkAndIncrement lim now stored =
     (let today = getTodayUTC now;
          cnt = (case stored of
                   Some r \<Rightarrow> if date r = today then count r else 0
                 | None \<Rightarrow> 0)
      in if cnt \<ge> lim then
           (\<lparr>remaining = 0, limit = lim, resetsAt = getNextMidnightUTC now,
             allowed = False\<rparr>, stored)
         else
           (\<lparr>remaining = lim - cnt - 1, limit = lim, resetsAt = getNextMidnightUTC now,
             allowed = True\<rparr>,
            Some \<lparr>date = today, count = cnt + 1\<rparr>))"

definition getStatus ::
  "int \<Rightarrow> int \<Rightarrow> counter option \<Rightarrow> RateLimitStatus \<times> counter option" where
  "getStatus lim now stored =
     (let today = getTodayUTC now;
          cnt = (case stored of
                   Some r \<Rightarrow> if date r = today then count r else 0
                 | None \<Rightarrow> 0)
      in (\<lparr>remaining = lim - cnt, limit = lim, resetsAt = getNextMidnightUTC now,
           allowed = True\<rparr>, stored))"

text \<open>
  \<^verbatim>\<open>RateLimiter.fetch\<close>: the pathname of the request selects the method; any other
  pathname is answered 404 with a body that is not JSON.
\<close>

datatype do_response = Json RateLimitStatus | NotFound404

definition RateLimiter_fetch ::
  "int \<Rightarrow> int \<Rightarrow> string \<Rightarrow> counter option \<Rightarrow> do_response \<times> counter option" where
  "RateLimiter_fetch lim now path stored =
     (if path = ''/check'' then
        (let (st, stored') = checkAndIncrement lim now stored in (Json st, stored'))
      else if path = ''/status'' then
        (let (st, stored') = getStatus lim now stored in (Json st, stored'))
      else (NotFound404, stored))"


section \<open>Notions used to state the properties of the counter\<close>

text \<open>The count that a stored value stands for on day \<open>d\<close>: a missing or stale record is 0.\<close>

definition effectiveCount :: "int \<Rightarrow> counter option \<Rightarrow> int" where
  "effectiveCount d stored =
     (case stored of Some r \<Rightarrow> if date r = d then count r else 0 | None \<Rightarrow> 0)"

text \<open>
  A stored value that check-and-increment can have written under the limit \<open>lim\<close>:
  nothing, or a record whose count is between 0 and \<open>lim\<close>.
\<close>

definition counter_ok :: "int \<Rightarrow> counter option \<Rightarrow> bool" where
  "counter_ok lim stored =
     (case stored of Some r \<Rightarrow> 0 \<le> count r \<and> count r \<le> lim | None \<Rightarrow> True)"

text \<open>
  A sequence of \<^verbatim>\<open>/check\<close> requests, one at each instant of the list, served one after
  the other (the Durable Object serialises them): the answers, and the final storage.
\<close>

fun checkAndIncrement_calls ::
  "int \<Rightarrow> int list \<Rightarrow> counter option \<Rightarrow> RateLimitStatus list \<times> counter option" where
  "checkAndIncrement_calls lim [] stored = ([], stored)"
| "checkAndIncrement_calls lim (now # nows) stored =
     (let (st, stored') = checkAndIncrement lim now stored;
          (sts, stored'') = checkAndIncrement_calls lim nows stored'
      in (st # sts, stored''))"


section \<open>Strings\<close>

text \<open>
  A JavaScript string is the list of its code units; the model has the code units
  0 to 255 (\<^typ>\<open>char\<close>), that is ASCII and Latin-1. On these,
  \<^verbatim>\<open>String.prototype.toLowerCase\<close> maps \<^verbatim>\<open>A\<close> to \<^verbatim>\<open>Z\<close> (65 to 90) and the Latin-1
  capitals (192 to 222, without the multiplication sign 215) to the code unit 32 above,
  and leaves every other code unit as it is.
\<close>

definition isUpperCase :: "char \<Rightarrow> bool" where
  "isUpperCase c =
     (let n = (of_char c :: nat)
      in (65 \<le> n \<and> n \<le> 90) \<or> (192 \<le> n \<and> n \<le> 222 \<and> n \<noteq> 215))"

definition toLowerCase_char :: "char \<Rightarrow> char" where
  "toLowerCase_char c = (if isUpperCase c then char_of ((of_char c :: nat) + 32) else c)"

definition toLowerCase :: "string \<Rightarrow> string" where
  "toLowerCase s = map toLowerCase_char s"

definition startsWith :: "string \<Rightarrow> string \<Rightarrow> bool" where
  \<comment> \<open>\<^verbatim>\<open>s.startsWith(p)\<close>\<close>
  "startsWith s p = (take (length p) s = p)"

fun replace_first :: "string \<Rightarrow> string \<Rightarrow> string \<Rightarrow> string" where
  \<comment> \<open>\<^verbatim>\<open>s.replace(pat, rep)\<close> with a string pattern: the first occurrence only\<close>
  "replace_first pat rep [] = (if pat = [] then rep else [])"
| "replace_first pat rep (c # cs) =
     (if startsWith (c # cs) pat then rep @ drop (length pat) (c # cs)
      else c # replace_first pat rep cs)"


section \<open>The cache (cache.ts)\<close>

datatype cache_type = Define | Synonyms

definition type_string :: "cache_type \<Rightarrow> string" where
  \<comment> \<open>the string that the source's union type \<^verbatim>\<open>"define" | "synonyms"\<close> holds\<close>
  "type_string ty = (case ty of Define \<Rightarrow> ''define'' | Synonyms \<Rightarrow> ''synonyms'')"

definition NOT_FOUND_TTL :: int where
  "NOT_FOUND_TTL = 60 * 60 * 24"

definition getCacheKey :: "cache_type \<Rightarrow> string \<Rightarrow> string" where
  "getCacheKey ty word = type_string ty @ ''|'' @ toLowerCase word"

record 'd CachedResponse =
  data :: 'd
  cachedAt :: int
  found :: bool

text \<open>
  The KV namespace is the platform's, not this repository's. It is modelled by its
  contract, which is also what the specification asks of its cache store: a map from
  keys to values, each with an optional expiration instant; \<^verbatim>\<open>put\<close> with
  \<^verbatim>\<open>expirationTtl\<close> of \<open>s\<close> seconds sets the expiration \<open>s\<close> seconds after the write,
  \<^verbatim>\<open>put\<close> without it sets none; \<^verbatim>\<open>get\<close> and \<^verbatim>\<open>getWithMetadata\<close> return \<^verbatim>\<open>null\<close> for
  a key that is missing or whose expiration has been reached; \<^verbatim>\<open>delete\<close> removes the key.
  Values are stored as they are: \<^verbatim>\<open>JSON.stringify\<close> on write and the \<^verbatim>\<open>"json"\<close> read
  are inverse to each other on the values written here.
\<close>

type_synonym 'v KVNamespace = "string \<rightharpoonup> 'v \<times> int option"

definition kv_get :: "'v KVNamespace \<Rightarrow> int \<Rightarrow> string \<Rightarrow> 'v option" where
  "kv_get kv now key =
     (case kv key of
        None \<Rightarrow> None
      | Some (v, expiration) \<Rightarrow>
          (case expiration of
             None \<Rightarrow> Some v
           | Some e \<Rightarrow> if e \<le> now then None else Some v))"

definition kv_put ::
  "'v KVNamespace \<Rightarrow> int \<Rightarrow> string \<Rightarrow> 'v \<Rightarrow> int option \<Rightarrow> 'v KVNamespace" where
  "kv_put kv now key v expirationTtl =
     kv(key \<mapsto> (v, map_option (\<lambda>s. now + s * 1000) expirationTtl))"

definition kv_delete :: "'v KVNamespace \<Rightarrow> string \<Rightarrow> 'v KVNamespace" where
  "kv_delete kv key = kv(key := None)"

definition getCached ::
  "'d CachedResponse KVNamespace \<Rightarrow> int \<Rightarrow> cache_type \<Rightarrow> string \<Rightarrow> 'd CachedResponse option"
  where
  "getCached kv now ty word = (let key = getCacheKey ty word in kv_get kv now key)"

definition setCache ::
  "'d CachedResponse KVNamespace \<Rightarrow> int \<Rightarrow> cache_type \<Rightarrow> string \<Rightarrow> 'd \<Rightarrow> bool
     \<Rightarrow> 'd CachedResponse KVNamespace" where
  "setCache kv now ty word d f =
     (let key = getCacheKey ty word;
          v = \<lparr>data = d, cachedAt = now, found = f\<rparr>;
          options = (if f then None else Some NOT_FOUND_TTL)
      in kv_put kv now key v options)"

definition deleteCache ::
  "'d CachedResponse KVNamespace \<Rightarrow> cache_type \<Rightarrow> string \<Rightarrow> 'd CachedResponse KVNamespace"
  where
  "deleteCache kv ty word = (let key = getCacheKey ty word in kv_delete kv key)"

definition hasCache ::
  "'d CachedResponse KVNamespace \<Rightarrow> int \<Rightarrow> cache_type \<Rightarrow> string \<Rightarrow> bool" where
  "hasCache kv now ty word =
     (let key = getCacheKey ty word; metadata_value = kv_get kv now key
      in metadata_value \<noteq> None)"


section \<open>The upstream client (lib: errors.ts, guards.ts, client.ts)\<close>

text \<open>The classes of errors.ts, all of them subclasses of \<^verbatim>\<open>MerriamWebsterError\<close>.\<close>

datatype mw_error = MerriamWebsterError | TimeoutError | NetworkError | InvalidKeyError | APIError

definition error_name :: "mw_error \<Rightarrow> string" where
  \<comment> \<open>the \<^verbatim>\<open>name\<close> that each constructor sets\<close>
  "error_name e =
     (case e of
        MerriamWebsterError \<Rightarrow> ''MerriamWebsterError''
      | TimeoutError \<Rightarrow> ''TimeoutError''
      | NetworkError \<Rightarrow> ''NetworkError''
      | InvalidKeyError \<Rightarrow> ''InvalidKeyError''
      | APIError \<Rightarrow> ''APIError'')"

text \<open>
  A thrown value: an instance of \<^verbatim>\<open>MerriamWebsterError\<close>, or any other error, kept by
  its \<^verbatim>\<open>name\<close> (\<^verbatim>\<open>Error\<close>, \<^verbatim>\<open>URIError\<close>, \<^verbatim>\<open>SyntaxError\<close>).
\<close>

datatype thrown = MWError mw_error | OtherError string

datatype endpoint = Collegiate | Thesaurus

text \<open>The parsed body of an upstream answer: an array of entries, or an array of strings.\<close>

datatype 'e mw_response = Entries "'e list" | Suggestions "string list"

text \<open>\<^verbatim>\<open>DictionaryResult\<close> and \<^verbatim>\<open>ThesaurusResult\<close>, unions tagged by \<^verbatim>\<open>found\<close>.\<close>

datatype 'e lookup_result = FoundResult "'e list" | NotFoundResult "string list"

definition result_found :: "'e lookup_result \<Rightarrow> bool" where
  "result_found r = (case r of FoundResult _ \<Rightarrow> True | NotFoundResult _ \<Rightarrow> False)"

definition isDictionaryEntries :: "'e mw_response \<Rightarrow> bool" where
  \<comment> \<open>a non-empty array whose first element is an object with \<^verbatim>\<open>meta\<close>\<close>
  "isDictionaryEntries response =
     (case response of Entries es \<Rightarrow> es \<noteq> [] | Suggestions _ \<Rightarrow> False)"

definition isThesaurusEntries :: "'e mw_response \<Rightarrow> bool" where
  "isThesaurusEntries response =
     (case response of Entries es \<Rightarrow> es \<noteq> [] | Suggestions _ \<Rightarrow> False)"

definition to_result :: "bool \<Rightarrow> 'e mw_response \<Rightarrow> 'e lookup_result" where
  \<comment> \<open>\<^verbatim>\<open>{ found: true, entries: response }\<close> or \<^verbatim>\<open>{ found: false, suggestions: response }\<close>\<close>
  "to_result is_entries response =
     (if is_entries then FoundResult (case response of Entries es \<Rightarrow> es | Suggestions _ \<Rightarrow> [])
      else NotFoundResult (case response of Suggestions ss \<Rightarrow> ss | Entries _ \<Rightarrow> []))"

text \<open>
  The client. \<open>None\<close> is a key that is \<^verbatim>\<open>undefined\<close>; \<^verbatim>\<open>!key\<close> holds of it and of the
  empty string.
\<close>

record MerriamWebster =
  dictionaryKey :: "string option"
  thesaurusKey :: "string option"

definition falsy :: "string option \<Rightarrow> bool" where
  "falsy k = (case k of None \<Rightarrow> True | Some s \<Rightarrow> s = [])"

definition new_MerriamWebster :: "string option \<Rightarrow> string option \<Rightarrow> thrown + MerriamWebster" where
  "new_MerriamWebster dk tk =
     (if falsy dk \<and> falsy tk then Inl (OtherError ''Error'')
      else Inr \<lparr>dictionaryKey = dk, thesaurusKey = tk\<rparr>)"

text \<open>
  The private method \<^verbatim>\<open>request\<close> does the network call. It is a parameter of the model:
  a function of the endpoint, the word and the key, whose failures are the four classes
  that the method throws when it is called without a caller's abort signal (the
  handlers pass none): its \<^verbatim>\<open>catch\<close> turns an abort into \<^verbatim>\<open>TimeoutError\<close> and any
  foreign error into \<^verbatim>\<open>NetworkError\<close>.
\<close>

type_synonym 'e request = "endpoint \<Rightarrow> string \<Rightarrow> string \<Rightarrow> mw_error + 'e mw_response"

definition MerriamWebster_define ::
  "'e request \<Rightarrow> MerriamWebster \<Rightarrow> string \<Rightarrow> thrown + 'e lookup_result" where
  "MerriamWebster_define request this word =
     (case dictionaryKey this of
        None \<Rightarrow> Inl (OtherError ''Error'')
      | Some k \<Rightarrow>
          if k = [] then Inl (OtherError ''Error'')
          else (case request Collegiate word k of
                  Inl e \<Rightarrow> Inl (MWError e)
                | Inr response \<Rightarrow> Inr (to_result (isDictionaryEntries response) response)))"

definition MerriamWebster_synonyms ::
  "'e request \<Rightarrow> MerriamWebster \<Rightarrow> string \<Rightarrow> thrown + 'e lookup_result" where
  "MerriamWebster_synonyms request this word =
     (case thesaurusKey this of
        None \<Rightarrow> Inl (OtherError ''Error'')
      | Some k \<Rightarrow>
          if k = [] then Inl (OtherError ''Error'')
          else (case request Thesaurus word k of
                  Inl e \<Rightarrow> Inl (MWError e)
                | Inr response \<Rightarrow> Inr (to_result (isThesaurusEntries response) response)))"


section \<open>The worker: environment, state, responses\<close>

text \<open>
  The bindings of \<^verbatim>\<open>Env\<close> that are configuration. \<open>DAILY_REQUEST_LIMIT\<close> is the integer
  that the limiter's constructor gets from \<^verbatim>\<open>parseInt(env.DAILY_REQUEST_LIMIT || "1000", 10)\<close>.
\<close>

record Env =
  MW_DICTIONARY_KEY :: string
  MW_THESAURUS_KEY :: string
  WORKER_API_KEY :: string
  ADMIN_API_KEY :: string
  DAILY_REQUEST_LIMIT :: int

text \<open>
  The bindings that are state: the KV namespace \<^verbatim>\<open>env.CACHE\<close>, and the Durable Object
  \<^verbatim>\<open>env.RATE_LIMITER\<close> named \<^verbatim>\<open>"global"\<close>, which is its stored counter together with the
  pathnames of the requests that were sent to it, oldest first.
\<close>

record 'e world =
  CACHE :: "'e lookup_result CachedResponse KVNamespace"
  RATE_LIMITER :: "counter option"
  RATE_LIMITER_requests :: "string list"

text \<open>
  What the platform provides to a handler: \<^verbatim>\<open>decodeURIComponent\<close> (\<open>None\<close> when it throws
  \<^verbatim>\<open>URIError\<close>), the upstream \<^verbatim>\<open>request\<close>, and the CORS headers for the origin of the
  request (cors.ts, already applied to the environment).
\<close>

record 'e externals =
  decodeURIComponent :: "string \<Rightarrow> string option"
  request :: "'e request"
  corsHeaders :: "string option \<Rightarrow> (string \<times> string) list"

record Request =
  http_method :: string
  pathname :: string
  Origin :: "string option"
  Authorization :: "string option"

text \<open>
  The JSON bodies. \<open>SuccessBody d c r\<close> is \<^verbatim>\<open>{success: true, data: d, cached: c, rateLimit: r}\<close>;
  \<open>ErrorBody c m r\<close> is \<^verbatim>\<open>{success: false, error: {code: c, message: m}, rateLimit: r}\<close>,
  the last field optional; \<open>DeletedBody t w k\<close> is
  \<^verbatim>\<open>{success: true, data: {deleted: true, type: t, word: w, key: k}}\<close>; \<open>HealthBody t\<close> is
  \<^verbatim>\<open>{status: "ok", timestamp: t}\<close>; \<open>StatusBody s\<close> is \<^verbatim>\<open>{success: true, data: s}\<close>.
\<close>

datatype 'e body =
    SuccessBody "'e lookup_result" bool RateLimitInfo
  | ErrorBody string string "RateLimitInfo option"
  | DeletedBody cache_type string string
  | HealthBody int
  | StatusBody RateLimitStatus
  | NoBody

text \<open>
  A header value is a string, the decimal printing of a number (\<^verbatim>\<open>String(n)\<close>), or an
  ISO timestamp.
\<close>

datatype header_value = Str string | Num int | Iso int

record 'e Response =
  status :: nat
  headers :: "(string \<times> header_value) list"
  body :: "'e body"

definition Response_json :: "'e body \<Rightarrow> nat \<Rightarrow> (string \<times> header_value) list \<Rightarrow> 'e Response" where
  \<comment> \<open>\<^verbatim>\<open>Response.json(body, {status, headers})\<close>\<close>
  "Response_json b st hs = \<lparr>status = st, headers = hs, body = b\<rparr>"

definition info :: "RateLimitStatus \<Rightarrow> RateLimitInfo" where
  \<comment> \<open>\<^verbatim>\<open>{remaining: rateLimit.remaining, limit: rateLimit.limit, resetsAt: rateLimit.resetsAt}\<close>\<close>
  "info rateLimit =
     \<lparr>remaining = remaining rateLimit, limit = limit rateLimit, resetsAt = resetsAt rateLimit\<rparr>"


section \<open>Shared handler code (handlers/shared.ts)\<close>

text \<open>
  \<^verbatim>\<open>stub.fetch(new Request("http://do/" + ...))\<close> on the limiter named \<^verbatim>\<open>"global"\<close>: the
  request is recorded and served by the Durable Object.
\<close>

definition stub_fetch :: "Env \<Rightarrow> int \<Rightarrow> string \<Rightarrow> 'e world \<Rightarrow> do_response \<times> 'e world" where
  "stub_fetch env now path w =
     (let (response, stored') = RateLimiter_fetch (DAILY_REQUEST_LIMIT env) now path (RATE_LIMITER w)
      in (response,
          w\<lparr>RATE_LIMITER := stored',
            RATE_LIMITER_requests := RATE_LIMITER_requests w @ [path]\<rparr>))"

definition response_json :: "do_response \<Rightarrow> thrown + RateLimitStatus" where
  \<comment> \<open>\<^verbatim>\<open>response.json()\<close>: the body \<^verbatim>\<open>Not Found\<close> does not parse\<close>
  "response_json response =
     (case response of Json st \<Rightarrow> Inr st | NotFound404 \<Rightarrow> Inl (OtherError ''SyntaxError''))"

definition checkRateLimit :: "Env \<Rightarrow> int \<Rightarrow> 'e world \<Rightarrow> (thrown + RateLimitStatus) \<times> 'e world" where
  "checkRateLimit env now w =
     (let (response, w') = stub_fetch env now ''/check'' w in (response_json response, w'))"

definition getRateLimitStatus ::
  "Env \<Rightarrow> int \<Rightarrow> 'e world \<Rightarrow> (thrown + RateLimitStatus) \<times> 'e world" where
  "getRateLimitStatus env now w =
     (let (response, w') = stub_fetch env now ''/status'' w in (response_json response, w'))"

definition rateLimitedResponse :: "int \<Rightarrow> RateLimitStatus \<Rightarrow> 'e Response" where
  "rateLimitedResponse now rateLimit =
     (let retryAfter = - ((- (resetsAt rateLimit - now)) div 1000)
      in Response_json
           (ErrorBody ''RATE_LIMITED'' ''Daily API limit exceeded. Try again tomorrow.''
              (Some \<lparr>remaining = 0, limit = limit rateLimit, resetsAt = resetsAt rateLimit\<rparr>))
           429
           [(''Retry-After'', Num retryAfter),
            (''X-RateLimit-Limit'', Num (limit rateLimit)),
            (''X-RateLimit-Remaining'', Str ''0''),
            (''X-RateLimit-Reset'', Iso (resetsAt rateLimit))])"

text \<open>\<open>Inl\<close> is the error thrown again.\<close>

definition handleMWError :: "thrown \<Rightarrow> RateLimitStatus \<Rightarrow> thrown + 'e Response" where
  "handleMWError error rateLimit =
     (case error of
        MWError e \<Rightarrow>
          (let st = (if error_name e = ''InvalidKeyError'' then 503 else 502)
           in Inr (Response_json
                     (ErrorBody ''UPSTREAM_ERROR'' ''Dictionary service temporarily unavailable''
                        (Some (info rateLimit)))
                     st []))
      | OtherError _ \<Rightarrow> Inl error)"

text \<open>\<open>None\<close> is \<^verbatim>\<open>null\<close>: the word is valid.\<close>

definition validateWord :: "string \<Rightarrow> 'e Response option" where
  "validateWord word =
     (if word = [] \<or> length word > 100 then
        Some (Response_json (ErrorBody ''INVALID_WORD'' ''Word must be 1-100 characters'' None)
                400 [])
      else None)"


section \<open>The lookup handlers (handlers/define.ts, handlers/synonyms.ts)\<close>

text \<open>
  A handler returns its response, or the error it throws, and the state it leaves. The
  cache write that the source hands to \<^verbatim>\<open>ctx.waitUntil\<close> is done before the handler
  returns.
\<close>

definition handleDefine ::
  "'e externals \<Rightarrow> Env \<Rightarrow> int \<Rightarrow> Request \<Rightarrow> 'e world \<Rightarrow> (thrown + 'e Response) \<times> 'e world"
  where
  "handleDefine ext env now req w =
     (case decodeURIComponent ext (replace_first ''/define/'' [] (pathname req)) of
        None \<Rightarrow> (Inl (OtherError ''URIError''), w)
      | Some word \<Rightarrow>
     (case validateWord word of
        Some invalid \<Rightarrow> (Inr invalid, w)
      | None \<Rightarrow>
     (case getCached (CACHE w) now Define word of
        Some cached \<Rightarrow>
          (case getRateLimitStatus env now w of
             (Inl e, w1) \<Rightarrow> (Inl e, w1)
           | (Inr rateLimit, w1) \<Rightarrow>
               (Inr (Response_json (SuccessBody (data cached) True (info rateLimit))
                       200 [(''X-Cache'', Str ''HIT'')]), w1))
      | None \<Rightarrow>
          (case checkRateLimit env now w of
             (Inl e, w1) \<Rightarrow> (Inl e, w1)
           | (Inr rateLimit, w1) \<Rightarrow>
               if \<not> allowed rateLimit then (Inr (rateLimitedResponse now rateLimit), w1)
               else
                 (case (case new_MerriamWebster (Some (MW_DICTIONARY_KEY env)) None of
                          Inl e \<Rightarrow> Inl e
                        | Inr mw \<Rightarrow> MerriamWebster_define (request ext) mw word) of
                    Inr result \<Rightarrow>
                      (Inr (Response_json (SuccessBody result False (info rateLimit))
                              200 [(''X-Cache'', Str ''MISS'')]),
                       w1\<lparr>CACHE := setCache (CACHE w1) now Define word result
                                      (result_found result)\<rparr>)
                  | Inl error \<Rightarrow> (handleMWError error rateLimit, w1))))))"

definition handleSynonyms ::
  "'e externals \<Rightarrow> Env \<Rightarrow> int \<Rightarrow> Request \<Rightarrow> 'e world \<Rightarrow> (thrown + 'e Response) \<times> 'e world"
  where
  "handleSynonyms ext env now req w =
     (case decodeURIComponent ext (replace_first ''/synonyms/'' [] (pathname req)) of
        None \<Rightarrow> (Inl (OtherError ''URIError''), w)
      | Some word \<Rightarrow>
     (case validateWord word of
        Some invalid \<Rightarrow> (Inr invalid, w)
      | None \<Rightarrow>
     (case getCached (CACHE w) now Synonyms word of
        Some cached \<Rightarrow>
          (case getRateLimitStatus env now w of
             (Inl e, w1) \<Rightarrow> (Inl e, w1)
           | (Inr rateLimit, w1) \<Rightarrow>
               (Inr (Response_json (SuccessBody (data cached) True (info rateLimit))
                       200 [(''X-Cache'', Str ''HIT'')]), w1))
      | None \<Rightarrow>
          (case checkRateLimit env now w of
             (Inl e, w1) \<Rightarrow> (Inl e, w1)
           | (Inr rateLimit, w1) \<Rightarrow>
               if \<not> allowed rateLimit then (Inr (rateLimitedResponse now rateLimit), w1)
               else
                 (case (case new_MerriamWebster None (Some (MW_THESAURUS_KEY env)) of
                          Inl e \<Rightarrow> Inl e
                        | Inr mw \<Rightarrow> MerriamWebster_synonyms (request ext) mw word) of
                    Inr result \<Rightarrow>
                      (Inr (Response_json (SuccessBody result False (info rateLimit))
                              200 [(''X-Cache'', Str ''MISS'')]),
                       w1\<lparr>CACHE := setCache (CACHE w1) now Synonyms word result
                                      (result_found result)\<rparr>)
                  | Inl error \<Rightarrow> (handleMWError error rateLimit, w1))))))"


section \<open>The admin handler (handlers/admin.ts)\<close>

text \<open>
  The match of \<^verbatim>\<open>/^\/cache\/(define|synonyms)\/(.+)$/\<close>: the two groups, when the
  pathname is \<^verbatim>\<open>/cache/\<close>, one of the two types, a slash and at least one character, none
  of them a line terminator (which \<^verbatim>\<open>.\<close> does not match).
\<close>

definition no_line_terminator :: "string \<Rightarrow> bool" where
  "no_line_terminator s = (CHR 0x0A \<notin> set s \<and> CHR 0x0D \<notin> set s)"

definition cache_path_match :: "string \<Rightarrow> (cache_type \<times> string) option" where
  "cache_path_match p =
     (if startsWith p ''/cache/define/'' \<and> drop 14 p \<noteq> [] \<and> no_line_terminator (drop 14 p)
      then Some (Define, drop 14 p)
      else if startsWith p ''/cache/synonyms/'' \<and> drop 16 p \<noteq> []
              \<and> no_line_terminator (drop 16 p)
      then Some (Synonyms, drop 16 p)
      else None)"

definition handleCacheDelete ::
  "'e externals \<Rightarrow> Env \<Rightarrow> int \<Rightarrow> Request \<Rightarrow> 'e world \<Rightarrow> (thrown + 'e Response) \<times> 'e world"
  where
  "handleCacheDelete ext env now req w =
     (case cache_path_match (pathname req) of
        None \<Rightarrow>
          (Inr (Response_json
                  (ErrorBody ''INVALID_PATH'' ''Path must be /cache/{define|synonyms}/{word}'' None)
                  400 []), w)
      | Some (ty, raw) \<Rightarrow>
     (case decodeURIComponent ext raw of
        None \<Rightarrow> (Inl (OtherError ''URIError''), w)
      | Some word \<Rightarrow>
          if word = [] \<or> length word > 100 then
            (Inr (Response_json
                    (ErrorBody ''INVALID_WORD'' ''Word must be 1-100 characters'' None)
                    400 []), w)
          else
            (let exists = hasCache (CACHE w) now ty word
             in if \<not> exists then
                  (Inr (Response_json
                          (ErrorBody ''NOT_FOUND''
                             (''No cached entry for '' @ type_string ty @ '':'' @ word) None)
                          404 []), w)
                else
                  (Inr (Response_json (DeletedBody ty word (getCacheKey ty word)) 200 []),
                   w\<lparr>CACHE := deleteCache (CACHE w) ty word\<rparr>))))"


section \<open>Authentication (auth.ts)\<close>

definition extractBearerToken :: "Request \<Rightarrow> string option" where
  "extractBearerToken req =
     (case Authorization req of
        None \<Rightarrow> None
      | Some auth \<Rightarrow> if \<not> startsWith auth ''Bearer '' then None else Some (drop 7 auth))"

definition validateUserAuth :: "Request \<Rightarrow> Env \<Rightarrow> bool" where
  "validateUserAuth req env = (extractBearerToken req = Some (WORKER_API_KEY env))"

definition validateAdminAuth :: "Request \<Rightarrow> Env \<Rightarrow> bool" where
  "validateAdminAuth req env = (extractBearerToken req = Some (ADMIN_API_KEY env))"


section \<open>The router (worker.ts, cors.ts)\<close>

definition set_header ::
  "string \<Rightarrow> header_value \<Rightarrow> (string \<times> header_value) list \<Rightarrow> (string \<times> header_value) list"
  where
  \<comment> \<open>\<^verbatim>\<open>Headers.set\<close>: the value replaces the one the name has, or is added\<close>
  "set_header k v hs =
     (if k \<in> fst ` set hs then map (\<lambda>(k', v'). if k' = k then (k', v) else (k', v')) hs
      else hs @ [(k, v)])"

definition withCors :: "'e externals \<Rightarrow> string option \<Rightarrow> 'e Response \<Rightarrow> 'e Response" where
  "withCors ext origin response =
     response\<lparr>headers :=
       foldl (\<lambda>hs (k, v). set_header k (Str v) hs) (headers response) (corsHeaders ext origin)\<rparr>"

definition handlePreflight :: "'e externals \<Rightarrow> Request \<Rightarrow> 'e Response" where
  "handlePreflight ext req =
     \<lparr>status = 204, headers = map (\<lambda>(k, v). (k, Str v)) (corsHeaders ext (Origin req)),
      body = NoBody\<rparr>"

definition handleHealth :: "int \<Rightarrow> 'e Response" where
  "handleHealth now = Response_json (HealthBody now) 200 []"

definition handleRateLimitStatus ::
  "Env \<Rightarrow> int \<Rightarrow> 'e world \<Rightarrow> (thrown + 'e Response) \<times> 'e world" where
  "handleRateLimitStatus env now w =
     (let (response, w') = stub_fetch env now ''/status'' w
      in (case response_json response of
            Inl e \<Rightarrow> (Inl e, w')
          | Inr st \<Rightarrow> (Inr (Response_json (StatusBody st) 200 []), w')))"

definition unauthorizedResponse :: "'e Response" where
  "unauthorizedResponse =
     Response_json (ErrorBody ''UNAUTHORIZED'' ''Invalid or missing API key'' None) 401 []"

definition forbiddenResponse :: "'e Response" where
  "forbiddenResponse =
     Response_json (ErrorBody ''FORBIDDEN'' ''Admin access required'' None) 403 []"

definition notFoundResponse :: "'e Response" where
  "notFoundResponse =
     Response_json (ErrorBody ''NOT_FOUND'' ''Endpoint not found'' None) 404 []"

definition internalErrorResponse :: "'e Response" where
  "internalErrorResponse =
     Response_json (ErrorBody ''INTERNAL_ERROR'' ''An unexpected error occurred'' None) 500 []"

text \<open>The body of the \<^verbatim>\<open>try\<close> block of \<^verbatim>\<open>handleRequest\<close>, before \<^verbatim>\<open>withCors\<close>.\<close>

definition route ::
  "'e externals \<Rightarrow> Env \<Rightarrow> int \<Rightarrow> Request \<Rightarrow> 'e world \<Rightarrow> (thrown + 'e Response) \<times> 'e world"
  where
  "route ext env now req w =
     (let path = pathname req
      in if path = ''/health'' then (Inr (handleHealth now), w)
         else if path = ''/rate-limit/status'' then
           (if \<not> validateUserAuth req env then (Inr unauthorizedResponse, w)
            else handleRateLimitStatus env now w)
         else if startsWith path ''/define/'' then
           (if \<not> validateUserAuth req env then (Inr unauthorizedResponse, w)
            else handleDefine ext env now req w)
         else if startsWith path ''/synonyms/'' then
           (if \<not> validateUserAuth req env then (Inr unauthorizedResponse, w)
            else handleSynonyms ext env now req w)
         else if startsWith path ''/cache/'' \<and> http_method req = ''DELETE'' then
           (if \<not> validateAdminAuth req env then (Inr forbiddenResponse, w)
            else handleCacheDelete ext env now req w)
         else (Inr notFoundResponse, w))"

definition handleRequest ::
  "'e externals \<Rightarrow> Env \<Rightarrow> int \<Rightarrow> Request \<Rightarrow> 'e world \<Rightarrow> 'e Response \<times> 'e world" where
  "handleRequest ext env now req w =
     (let origin = Origin req
      in if http_method req = ''OPTIONS'' then (handlePreflight ext req, w)
         else
           (case route ext env now req w of
              (Inr response, w') \<Rightarrow> (withCors ext origin response, w')
            | (Inl error, w') \<Rightarrow> (withCors ext origin internalErrorResponse, w')))"


section \<open>Notions used to state the properties of the handlers\<close>

text \<open>
  Two code units that are the same letter: equal, or a capital and the code unit 32 above
  it. Two words differ only in letter case when they are the same letters, one by one.
\<close>

definition same_letter :: "char \<Rightarrow> char \<Rightarrow> bool" where
  "same_letter a b =
     (a = b \<or> (isUpperCase a \<and> (of_char b :: nat) = of_char a + 32)
            \<or> (isUpperCase b \<and> (of_char a :: nat) = of_char b + 32))"

definition differ_only_in_case :: "string \<Rightarrow> string \<Rightarrow> bool" where
  "differ_only_in_case u v = list_all2 same_letter u v"

text \<open>The requests that a handler sent to the limiter: what it added to the record.\<close>

definition requests_sent :: "'e world \<Rightarrow> 'e world \<Rightarrow> string list" where
  "requests_sent w w' = drop (length (RATE_LIMITER_requests w)) (RATE_LIMITER_requests w')"

text \<open>
  The two lookup handlers differ in the type, the prefix of the path, the key and the
  client method. To state a property of both at once: the handler of a type, the prefix
  it removes, the call inside its \<^verbatim>\<open>try\<close> block, its key and its endpoint.
\<close>

definition lookup_prefix :: "cache_type \<Rightarrow> string" where
  "lookup_prefix ty = (case ty of Define \<Rightarrow> ''/define/'' | Synonyms \<Rightarrow> ''/synonyms/'')"

definition handleLookup ::
  "cache_type \<Rightarrow> 'e externals \<Rightarrow> Env \<Rightarrow> int \<Rightarrow> Request \<Rightarrow> 'e world
     \<Rightarrow> (thrown + 'e Response) \<times> 'e world" where
  "handleLookup ty = (case ty of Define \<Rightarrow> handleDefine | Synonyms \<Rightarrow> handleSynonyms)"

definition upstream_call ::
  "cache_type \<Rightarrow> 'e externals \<Rightarrow> Env \<Rightarrow> string \<Rightarrow> thrown + 'e lookup_result" where
  "upstream_call ty ext env word =
     (case ty of
        Define \<Rightarrow>
          (case new_MerriamWebster (Some (MW_DICTIONARY_KEY env)) None of
             Inl e \<Rightarrow> Inl e
           | Inr mw \<Rightarrow> MerriamWebster_define (request ext) mw word)
      | Synonyms \<Rightarrow>
          (case new_MerriamWebster None (Some (MW_THESAURUS_KEY env)) of
             Inl e \<Rightarrow> Inl e
           | Inr mw \<Rightarrow> MerriamWebster_synonyms (request ext) mw word))"

definition api_key :: "cache_type \<Rightarrow> Env \<Rightarrow> string" where
  "api_key ty env = (case ty of Define \<Rightarrow> MW_DICTIONARY_KEY env | Synonyms \<Rightarrow> MW_THESAURUS_KEY env)"

definition endpoint_of :: "cache_type \<Rightarrow> endpoint" where
  "endpoint_of ty = (case ty of Define \<Rightarrow> Collegiate | Synonyms \<Rightarrow> Thesaurus)"


section \<open>Values for the examples\<close>

text \<open>
  An environment with the limit 2; a platform whose decoding leaves the string as it is
  and whose upstream request fails with a given error; a request with a bearer token; a
  state where \<^verbatim>\<open>define|alpha\<close> is cached for ever and one lookup has been counted on
  day 0.
\<close>

definition example_env :: Env where
  "example_env =
     \<lparr>MW_DICTIONARY_KEY = ''dictionary-key'', MW_THESAURUS_KEY = ''thesaurus-key'',
      WORKER_API_KEY = ''user-key'', ADMIN_API_KEY = ''admin-key'', DAILY_REQUEST_LIMIT = 2\<rparr>"

definition failing_ext :: "mw_error \<Rightarrow> unit externals" where
  "failing_ext e =
     \<lparr>decodeURIComponent = Some, request = (\<lambda>_ _ _. Inl e), corsHeaders = (\<lambda>_. [])\<rparr>"

definition example_request :: "string \<Rightarrow> string \<Rightarrow> string \<Rightarrow> Request" where
  "example_request m p key =
     \<lparr>http_method = m, pathname = p, Origin = None, Authorization = Some (''Bearer '' @ key)\<rparr>"

definition example_entry :: "unit lookup_result CachedResponse" where
  "example_entry = \<lparr>data = FoundResult [()], cachedAt = 0, found = True\<rparr>"

definition example_world :: "unit world" where
  "example_world =
     \<lparr>CACHE = Map.empty(''define|alpha'' \<mapsto> (example_entry, None)),
      RATE_LIMITER = Some \<lparr>date = 0, count = 1\<rparr>,
      RATE_LIMITER_requests = []\<rparr>"


section \<open>Properties of the counter\<close>

lemma checkAndIncrement_allowed_iff:
  "allowed (fst (checkAndIncrement lim now stored))
     \<longleftrightarrow> effectiveCount (getTodayUTC now) stored < lim"
  by (simp add: checkAndIncrement_def effectiveCount_def Let_def)

lemma checkAndIncrement_stored:
  "snd (checkAndIncrement lim now stored) =
     (if effectiveCount (getTodayUTC now) stored < lim
      then Some \<lparr>date = getTodayUTC now, count = effectiveCount (getTodayUTC now) stored + 1\<rparr>
      else stored)"
  by (simp add: checkAndIncrement_def effectiveCount_def Let_def)

lemma checkAndIncrement_remaining:
  "remaining (fst (checkAndIncrement lim now stored)) =
     (if effectiveCount (getTodayUTC now) stored < lim
      then lim - effectiveCount (getTodayUTC now) stored - 1
      else 0)"
  by (simp add: checkAndIncrement_def effectiveCount_def Let_def)

lemma counter_ok_step:
  assumes "0 < lim" and "counter_ok lim stored"
  shows "counter_ok lim (snd (checkAndIncrement lim now stored))"
  using assms
  by (auto simp add: checkAndIncrement_stored counter_ok_def effectiveCount_def
      split: option.splits if_splits)

lemma effectiveCount_step:
  "effectiveCount (getTodayUTC now) (snd (checkAndIncrement lim now stored)) =
     (if effectiveCount (getTodayUTC now) stored < lim
      then effectiveCount (getTodayUTC now) stored + 1
      else effectiveCount (getTodayUTC now) stored)"
  by (simp add: checkAndIncrement_stored effectiveCount_def)

lemma effectiveCount_bounds:
  "counter_ok lim stored \<Longrightarrow> 0 < lim \<Longrightarrow>
   0 \<le> effectiveCount d stored \<and> effectiveCount d stored \<le> lim"
  by (auto simp add: counter_ok_def effectiveCount_def split: option.splits)

lemma calls_counter_ok:
  "0 < lim \<Longrightarrow> counter_ok lim stored \<Longrightarrow>
   counter_ok lim (snd (checkAndIncrement_calls lim nows stored))"
proof (induction nows arbitrary: stored)
  case Nil
  then show ?case by simp
next
  case (Cons now nows)
  have "counter_ok lim (snd (checkAndIncrement lim now stored))"
    using Cons.prems by (rule counter_ok_step)
  from Cons.IH [OF Cons.prems(1) this] show ?case
    by (simp add: split_beta Let_def)
qed

lemma calls_allowed_count:
  "0 < lim \<Longrightarrow> counter_ok lim stored \<Longrightarrow> \<forall>now \<in> set nows. getTodayUTC now = d \<Longrightarrow>
   int (length (filter allowed (fst (checkAndIncrement_calls lim nows stored))))
     = min (int (length nows)) (lim - effectiveCount d stored)"
proof (induction nows arbitrary: stored)
  case Nil
  then show ?case using effectiveCount_bounds [of lim stored d] by simp
next
  case (Cons now nows)
  let ?s = "snd (checkAndIncrement lim now stored)"
  have d: "getTodayUTC now = d" using Cons.prems(3) by simp
  have ok: "counter_ok lim ?s" using Cons.prems(1,2) by (rule counter_ok_step)
  have rest: "\<forall>now \<in> set nows. getTodayUTC now = d" using Cons.prems(3) by simp
  note IH = Cons.IH [OF Cons.prems(1) ok rest]
  have b: "0 \<le> effectiveCount d stored \<and> effectiveCount d stored \<le> lim"
    using effectiveCount_bounds Cons.prems by blast
  show ?case
  proof (cases "effectiveCount d stored < lim")
    case True
    then show ?thesis using IH b d effectiveCount_step [of now lim stored]
        checkAndIncrement_allowed_iff [of lim now stored]
      by (simp add: split_beta Let_def)
  next
    case False
    then show ?thesis using IH b d effectiveCount_step [of now lim stored]
        checkAndIncrement_allowed_iff [of lim now stored]
      by (simp add: split_beta Let_def)
  qed
qed

text \<open>
  C1. Take a positive limit, a stored value that check-and-increment can have written,
  and any sequence of check-and-increment calls whose instants are all on the UTC day
  \<open>d\<close>. After every prefix of the sequence the stored count is at most the limit. The
  number of calls answered \<open>allowed = true\<close> is at most the limit; it is the smaller of
  the number of calls and of what the limit leaves above the count that the storage
  stood for on day \<open>d\<close> before the first call, hence the smaller of the number of calls
  and of the limit when that count was 0 (nothing stored, or a record of another day).
\<close>

theorem checkAndIncrement_at_most_limit:
  assumes "0 < lim"
    and "counter_ok lim stored"
    and "\<forall>now \<in> set nows. getTodayUTC now = d"
  shows "(\<forall>k \<le> length nows.
            case snd (checkAndIncrement_calls lim (take k nows) stored) of
              None \<Rightarrow> True
            | Some r \<Rightarrow> count r \<le> lim)
       \<and> int (length (filter allowed (fst (checkAndIncrement_calls lim nows stored)))) \<le> lim
       \<and> int (length (filter allowed (fst (checkAndIncrement_calls lim nows stored))))
           = min (int (length nows)) (lim - effectiveCount d stored)
       \<and> (effectiveCount d stored = 0 \<longrightarrow>
            int (length (filter allowed (fst (checkAndIncrement_calls lim nows stored))))
              = min (int (length nows)) lim)"
proof -
  have inv: "case snd (checkAndIncrement_calls lim (take k nows) stored) of
               None \<Rightarrow> True | Some r \<Rightarrow> count r \<le> lim" for k
    using calls_counter_ok [OF assms(1,2), of "take k nows"]
    by (simp add: counter_ok_def split: option.splits)
  have n: "int (length (filter allowed (fst (checkAndIncrement_calls lim nows stored))))
             = min (int (length nows)) (lim - effectiveCount d stored)"
    using assms by (rule calls_allowed_count)
  have b: "0 \<le> effectiveCount d stored"
    using effectiveCount_bounds [OF assms(2,1)] by simp
  show ?thesis using inv n b by simp
qed

theorem checkAndIncrement_at_most_limit_witness:
  "(0::int) < 2
   \<and> counter_ok 2 (Some \<lparr>date = 0, count = 2\<rparr>)
   \<and> getTodayUTC 86400000 = 1 \<and> getTodayUTC 86400001 = 1 \<and> getTodayUTC 172799999 = 1
   \<and> int (length (filter allowed (fst (checkAndIncrement_calls 2
            [86400000, 86400001, 172799999] (Some \<lparr>date = 0, count = 2\<rparr>))))) = 2
   \<and> snd (checkAndIncrement_calls 2 [86400000, 86400001, 172799999]
            (Some \<lparr>date = 0, count = 2\<rparr>)) = Some \<lparr>date = 1, count = 2\<rparr>"
proof -
  have h1: "(0::int) < 2" by simp
  have h2: "counter_ok 2 (Some \<lparr>date = 0, count = 2\<rparr>)" by (simp add: counter_ok_def)
  have h3: "\<forall>now \<in> set [86400000, 86400001, 172799999]. getTodayUTC now = 1"
    by (simp add: getTodayUTC_def MS_PER_DAY_def)
  have e: "effectiveCount 1 (Some \<lparr>date = 0, count = 2\<rparr>) = 0"
    by (simp add: effectiveCount_def)
  have s: "snd (checkAndIncrement_calls 2 [86400000, 86400001, 172799999]
            (Some \<lparr>date = 0, count = 2\<rparr>)) = Some \<lparr>date = 1, count = 2\<rparr>"
    by (simp add: checkAndIncrement_def getTodayUTC_def MS_PER_DAY_def Let_def)
  show ?thesis
    using checkAndIncrement_at_most_limit [OF h1 h2 h3] h1 h2 h3 e s by simp
qed

text \<open>
  C2. A check-and-increment call that answers \<open>allowed = true\<close> stores, for today, the
  count that the storage stood for plus exactly 1; a call that answers \<open>allowed = false\<close>
  leaves the storage as it was and answers \<open>remaining = 0\<close>.
\<close>

theorem checkAndIncrement_effect:
  "(allowed (fst (checkAndIncrement lim now stored)) \<longrightarrow>
      snd (checkAndIncrement lim now stored) =
        Some \<lparr>date = getTodayUTC now, count = effectiveCount (getTodayUTC now) stored + 1\<rparr>)
   \<and> (\<not> allowed (fst (checkAndIncrement lim now stored)) \<longrightarrow>
        snd (checkAndIncrement lim now stored) = stored
        \<and> remaining (fst (checkAndIncrement lim now stored)) = 0)"
  by (simp add: checkAndIncrement_def effectiveCount_def Let_def)

theorem checkAndIncrement_effect_witness:
  "allowed (fst (checkAndIncrement 2 5 (Some \<lparr>date = 0, count = 1\<rparr>)))
   \<and> snd (checkAndIncrement 2 5 (Some \<lparr>date = 0, count = 1\<rparr>)) = Some \<lparr>date = 0, count = 2\<rparr>
   \<and> \<not> allowed (fst (checkAndIncrement 2 5 (Some \<lparr>date = 0, count = 2\<rparr>)))
   \<and> snd (checkAndIncrement 2 5 (Some \<lparr>date = 0, count = 2\<rparr>)) = Some \<lparr>date = 0, count = 2\<rparr>
   \<and> remaining (fst (checkAndIncrement 2 5 (Some \<lparr>date = 0, count = 2\<rparr>))) = 0"
proof -
  have a: "allowed (fst (checkAndIncrement 2 5 (Some \<lparr>date = 0, count = 1\<rparr>)))"
    by (simp add: checkAndIncrement_def getTodayUTC_def MS_PER_DAY_def Let_def)
  have b: "\<not> allowed (fst (checkAndIncrement 2 5 (Some \<lparr>date = 0, count = 2\<rparr>)))"
    by (simp add: checkAndIncrement_def getTodayUTC_def MS_PER_DAY_def Let_def)
  have t: "getTodayUTC 5 = 0"
    by (simp add: getTodayUTC_def MS_PER_DAY_def)
  show ?thesis
    using checkAndIncrement_effect [of 2 5 "Some \<lparr>date = 0, count = 1\<rparr>"]
      checkAndIncrement_effect [of 2 5 "Some \<lparr>date = 0, count = 2\<rparr>"] a b t
    by (simp add: effectiveCount_def)
qed

text \<open>
  C3. Under a positive limit, a check-and-increment call that finds a record of another
  day, whatever its count, answers \<open>allowed = true\<close> with \<open>remaining = limit - 1\<close> and
  stores today's date with the count 1: just what it does on a record of today with
  the count 0.
\<close>

theorem checkAndIncrement_day_rollover:
  assumes "0 < lim" and "date r \<noteq> getTodayUTC now"
  shows "checkAndIncrement lim now (Some r) =
           (\<lparr>remaining = lim - 1, limit = lim, resetsAt = getNextMidnightUTC now,
             allowed = True\<rparr>,
            Some \<lparr>date = getTodayUTC now, count = 1\<rparr>)
         \<and> checkAndIncrement lim now (Some r) =
             checkAndIncrement lim now (Some \<lparr>date = getTodayUTC now, count = 0\<rparr>)"
  using assms by (simp add: checkAndIncrement_def Let_def)

theorem checkAndIncrement_day_rollover_witness:
  "(0::int) < 1000
   \<and> date \<lparr>date = 0, count = 1000\<rparr> \<noteq> getTodayUTC 86400007
   \<and> checkAndIncrement 1000 86400007 (Some \<lparr>date = 0, count = 1000\<rparr>) =
       (\<lparr>remaining = 999, limit = 1000, resetsAt = 172800000, allowed = True\<rparr>,
        Some \<lparr>date = 1, count = 1\<rparr>)"
proof -
  have h1: "(0::int) < 1000" by simp
  have h2: "date \<lparr>date = 0, count = 1000\<rparr> \<noteq> getTodayUTC 86400007"
    by (simp add: getTodayUTC_def MS_PER_DAY_def)
  have t: "getTodayUTC 86400007 = 1" "getNextMidnightUTC 86400007 = 172800000"
    by (simp_all add: getTodayUTC_def getNextMidnightUTC_def MS_PER_DAY_def)
  show ?thesis
    using checkAndIncrement_day_rollover [OF h1 h2] h2 t by simp
qed

text \<open>
  C5, as the code has it. The status query answers \<open>allowed = true\<close> whatever is stored,
  with \<open>remaining = limit - count\<close> for the count that the storage stands for today, and
  it leaves the storage as it was. On a counter that has reached the limit today the
  answer is \<open>allowed = true\<close> with \<open>remaining = 0\<close>.
\<close>

theorem getStatus_always_allowed:
  "getStatus lim now stored =
     (\<lparr>remaining = lim - effectiveCount (getTodayUTC now) stored, limit = lim,
       resetsAt = getNextMidnightUTC now, allowed = True\<rparr>, stored)
   \<and> getStatus lim now (Some \<lparr>date = getTodayUTC now, count = lim\<rparr>) =
       (\<lparr>remaining = 0, limit = lim, resetsAt = getNextMidnightUTC now, allowed = True\<rparr>,
        Some \<lparr>date = getTodayUTC now, count = lim\<rparr>)"
  by (simp add: getStatus_def effectiveCount_def Let_def)

text \<open>
  C5, as the specification has it, fails: with the limit 2 and today's count 2 the
  status query answers \<open>allowed = true\<close> although \<open>remaining\<close> is 0.
\<close>

theorem getStatus_allowed_counterexample:
  "\<not> (allowed (fst (getStatus 2 5 (Some \<lparr>date = 0, count = 2\<rparr>)))
        \<longleftrightarrow> 0 < remaining (fst (getStatus 2 5 (Some \<lparr>date = 0, count = 2\<rparr>))))
   \<and> getTodayUTC 5 = 0
   \<and> allowed (fst (getStatus 2 5 (Some \<lparr>date = 0, count = 2\<rparr>)))"
  by (simp add: getStatus_def getTodayUTC_def MS_PER_DAY_def Let_def)

section \<open>Properties of the cache\<close>

lemma toLowerCase_char_same_letter:
  assumes "same_letter a b"
  shows "toLowerCase_char a = toLowerCase_char b"
proof -
  have up: "toLowerCase_char x = toLowerCase_char y"
    if "isUpperCase x" and "(of_char y :: nat) = of_char x + 32" for x y
  proof -
    have "\<not> isUpperCase y"
      using that by (auto simp add: isUpperCase_def Let_def)
    moreover have "char_of ((of_char x :: nat) + 32) = y"
      using that(2) [symmetric] by simp
    ultimately show ?thesis
      using that(1) by (simp add: toLowerCase_char_def)
  qed
  from assms consider "a = b"
    | "isUpperCase a" "(of_char b :: nat) = of_char a + 32"
    | "isUpperCase b" "(of_char a :: nat) = of_char b + 32"
    by (auto simp add: same_letter_def)
  then show ?thesis
  proof cases
    case 1
    then show ?thesis by simp
  next
    case 2
    then show ?thesis by (rule up)
  next
    case 3
    then show ?thesis using up [of b a] by simp
  qed
qed

lemma toLowerCase_differ_only_in_case:
  "differ_only_in_case u v \<Longrightarrow> toLowerCase u = toLowerCase v"
  unfolding differ_only_in_case_def toLowerCase_def
  by (induction u v rule: list_all2_induct) (simp_all add: toLowerCase_char_same_letter)

lemma length_getCacheKey:
  "length (getCacheKey ty word) = length (type_string ty) + 1 + length word"
  by (simp add: getCacheKey_def toLowerCase_def)

text \<open>
  C6, as the code has it. Two words that differ only in letter case have the same cache
  key, for either lookup type. The validation step checks the length of the word and
  nothing else: it accepts every word of 1 to 100 code units as it is, whitespace
  included, and trims nothing. Whitespace is not removed by the key either: a word with
  anything before or after it has a key different from the key of the word alone.
\<close>

theorem getCacheKey_case_insensitive_not_trimmed:
  "(differ_only_in_case u v \<longrightarrow> getCacheKey ty u = getCacheKey ty v)
   \<and> ((validateWord w :: 'e Response option) = None \<longleftrightarrow> w \<noteq> [] \<and> length w \<le> 100)
   \<and> (p @ q \<noteq> [] \<longrightarrow> getCacheKey ty (p @ w @ q) \<noteq> getCacheKey ty w)"
proof -
  have "getCacheKey ty u = getCacheKey ty v" if "differ_only_in_case u v"
    using toLowerCase_differ_only_in_case [OF that] by (simp add: getCacheKey_def)
  moreover have "getCacheKey ty (p @ w @ q) \<noteq> getCacheKey ty w" if "p @ q \<noteq> []"
  proof
    assume "getCacheKey ty (p @ w @ q) = getCacheKey ty w"
    then have "length (getCacheKey ty (p @ w @ q)) = length (getCacheKey ty w)" by simp
    then show False using that by (simp add: length_getCacheKey)
  qed
  moreover have "(validateWord w :: 'e Response option) = None \<longleftrightarrow> w \<noteq> [] \<and> length w \<le> 100"
    by (auto simp add: validateWord_def)
  ultimately show ?thesis by blast
qed

theorem getCacheKey_case_insensitive_not_trimmed_witness:
  "differ_only_in_case ''WORD'' ''word''
   \<and> getCacheKey Define ''WORD'' = getCacheKey Define ''word''
   \<and> getCacheKey Define ''Hello'' = ''define|hello''
   \<and> '' '' @ '' '' \<noteq> []
   \<and> getCacheKey Define ('' '' @ ''word'' @ '' '') \<noteq> getCacheKey Define ''word''"
proof -
  have d: "differ_only_in_case ''WORD'' ''word''"
    by (simp add: differ_only_in_case_def same_letter_def isUpperCase_def Let_def)
  have k: "getCacheKey Define ''Hello'' = ''define|hello''"
    by code_simp
  have n: "'' '' @ '' '' \<noteq> []" by simp
  show ?thesis
    using getCacheKey_case_insensitive_not_trimmed
              [of "''WORD''" "''word''" Define "''word''" "'' ''" "'' ''"] d k n
    by blast
qed

text \<open>
  C6, as the specification has it, fails on surrounding whitespace: the word
  \<^verbatim>\<open>" word "\<close> passes validation untrimmed, its key is not the key of \<^verbatim>\<open>"word"\<close>, and in a
  cache that holds \<^verbatim>\<open>"word"\<close> it is not found.
\<close>

theorem getCacheKey_whitespace_counterexample:
  "(validateWord '' word '' :: unit Response option) = None
   \<and> getCacheKey Define '' word '' = ''define| word ''
   \<and> getCacheKey Define ''word'' = ''define|word''
   \<and> getCacheKey Define '' word '' \<noteq> getCacheKey Define ''word''
   \<and> getCached (Map.empty(getCacheKey Define ''word'' \<mapsto>
          (\<lparr>data = NotFoundResult [], cachedAt = 0, found = False\<rparr>, None)))
        0 Define ''word''
      = Some \<lparr>data = (NotFoundResult [] :: unit lookup_result), cachedAt = 0, found = False\<rparr>
   \<and> getCached (Map.empty(getCacheKey Define ''word'' \<mapsto>
          (\<lparr>data = (NotFoundResult [] :: unit lookup_result), cachedAt = 0, found = False\<rparr>, None)))
        0 Define '' word ''
      = None"
  by (simp add: validateWord_def getCached_def kv_get_def getCacheKey_def type_string_def
      toLowerCase_def toLowerCase_char_def isUpperCase_def Let_def)

lemma kv_get_put:
  "kv_get (kv_put kv now key v ttl) t key =
     (case ttl of None \<Rightarrow> Some v | Some s \<Rightarrow> if now + s * 1000 \<le> t then None else Some v)"
  by (simp add: kv_get_def kv_put_def split: option.splits)

text \<open>
  C7. A cache write with \<open>found = true\<close> stores the entry with no expiration, and a read
  of the same word and type at any instant returns it, until a delete removes it. A cache
  write with \<open>found = false\<close> stores the entry with a time to live of 86400 seconds: a
  read before 86400 seconds have passed returns it, a read from then on returns nothing.
\<close>

theorem setCache_ttl:
  "setCache kv now ty word d True (getCacheKey ty word)
     = Some (\<lparr>data = d, cachedAt = now, found = True\<rparr>, None)
   \<and> getCached (setCache kv now ty word d True) t ty word
       = Some \<lparr>data = d, cachedAt = now, found = True\<rparr>
   \<and> getCached (deleteCache (setCache kv now ty word d True) ty word) t ty word = None
   \<and> NOT_FOUND_TTL = 86400
   \<and> setCache kv now ty word d False (getCacheKey ty word)
       = Some (\<lparr>data = d, cachedAt = now, found = False\<rparr>, Some (now + 86400 * 1000))
   \<and> (t < now + 86400 * 1000 \<longrightarrow>
        getCached (setCache kv now ty word d False) t ty word
          = Some \<lparr>data = d, cachedAt = now, found = False\<rparr>)
   \<and> (now + 86400 * 1000 \<le> t \<longrightarrow>
        getCached (setCache kv now ty word d False) t ty word = None)"
  by (simp add: setCache_def getCached_def deleteCache_def kv_get_put kv_put_def
      kv_delete_def kv_get_def NOT_FOUND_TTL_def Let_def)

theorem setCache_ttl_witness:
  "(5 :: int) < 0 + 86400 * 1000
   \<and> getCached (setCache Map.empty 0 Define ''xyzzy'' (NotFoundResult [] :: unit lookup_result)
        False) 5 Define ''xyzzy''
       = Some \<lparr>data = NotFoundResult [], cachedAt = 0, found = False\<rparr>
   \<and> (0 :: int) + 86400 * 1000 \<le> 86401000
   \<and> getCached (setCache Map.empty 0 Define ''xyzzy'' (NotFoundResult [] :: unit lookup_result)
        False) 86401000 Define ''xyzzy''
       = None"
  using setCache_ttl [of Map.empty 0 Define "''xyzzy''" "NotFoundResult [] :: unit lookup_result" 5]
    setCache_ttl [of Map.empty 0 Define "''xyzzy''" "NotFoundResult [] :: unit lookup_result"
      86401000]
  by simp


section \<open>Properties of the handlers\<close>

lemmas example_defs =
  example_env_def failing_ext_def example_request_def example_entry_def example_world_def

lemmas eval_defs =
  lookup_prefix_def startsWith_def getCached_def kv_get_def getCacheKey_def type_string_def
  toLowerCase_def toLowerCase_char_def isUpperCase_def Let_def

lemma getRateLimitStatus_eq:
  "getRateLimitStatus env now w =
     (Inr (fst (getStatus (DAILY_REQUEST_LIMIT env) now (RATE_LIMITER w))),
      w\<lparr>RATE_LIMITER_requests := RATE_LIMITER_requests w @ [''/status'']\<rparr>)"
  by (simp add: getRateLimitStatus_def stub_fetch_def RateLimiter_fetch_def response_json_def
      getStatus_def Let_def)

lemma checkRateLimit_eq:
  "checkRateLimit env now w =
     (Inr (fst (checkAndIncrement (DAILY_REQUEST_LIMIT env) now (RATE_LIMITER w))),
      w\<lparr>RATE_LIMITER := snd (checkAndIncrement (DAILY_REQUEST_LIMIT env) now (RATE_LIMITER w)),
        RATE_LIMITER_requests := RATE_LIMITER_requests w @ [''/check'']\<rparr>)"
  by (simp add: checkRateLimit_def stub_fetch_def RateLimiter_fetch_def response_json_def
      Let_def split_beta)

lemma handleLookup_eq:
  "handleLookup ty ext env now req w =
     (case decodeURIComponent ext (replace_first (lookup_prefix ty) [] (pathname req)) of
        None \<Rightarrow> (Inl (OtherError ''URIError''), w)
      | Some word \<Rightarrow>
     (case validateWord word of
        Some invalid \<Rightarrow> (Inr invalid, w)
      | None \<Rightarrow>
     (case getCached (CACHE w) now ty word of
        Some cached \<Rightarrow>
          (case getRateLimitStatus env now w of
             (Inl e, w1) \<Rightarrow> (Inl e, w1)
           | (Inr rateLimit, w1) \<Rightarrow>
               (Inr (Response_json (SuccessBody (data cached) True (info rateLimit))
                       200 [(''X-Cache'', Str ''HIT'')]), w1))
      | None \<Rightarrow>
          (case checkRateLimit env now w of
             (Inl e, w1) \<Rightarrow> (Inl e, w1)
           | (Inr rateLimit, w1) \<Rightarrow>
               if \<not> allowed rateLimit then (Inr (rateLimitedResponse now rateLimit), w1)
               else
                 (case upstream_call ty ext env word of
                    Inr result \<Rightarrow>
                      (Inr (Response_json (SuccessBody result False (info rateLimit))
                              200 [(''X-Cache'', Str ''MISS'')]),
                       w1\<lparr>CACHE := setCache (CACHE w1) now ty word result
                                      (result_found result)\<rparr>)
                  | Inl error \<Rightarrow> (handleMWError error rateLimit, w1))))))"
proof (cases ty)
  case Define
  show ?thesis
    unfolding Define handleLookup_def handleDefine_def lookup_prefix_def upstream_call_def
      cache_type.case
    by (rule refl)
next
  case Synonyms
  show ?thesis
    unfolding Synonyms handleLookup_def handleSynonyms_def lookup_prefix_def upstream_call_def
      cache_type.case
    by (rule refl)
qed

lemma handleLookup_hit:
  assumes "decodeURIComponent ext (replace_first (lookup_prefix ty) [] (pathname req)) = Some word"
    and "getCached (CACHE w) now ty word = Some cached"
  shows "handleLookup ty ext env now req w =
    (case validateWord word of
       Some invalid \<Rightarrow> (Inr invalid, w)
     | None \<Rightarrow> (Inr (Response_json (SuccessBody (data cached) True
                  (info (fst (getStatus (DAILY_REQUEST_LIMIT env) now (RATE_LIMITER w)))))
                       200 [(''X-Cache'', Str ''HIT'')]),
          w\<lparr>RATE_LIMITER_requests := RATE_LIMITER_requests w @ [''/status'']\<rparr>))"
  using assms by (simp add: handleLookup_eq getRateLimitStatus_eq split: option.splits)

text \<open>
  C4. A lookup request, for either type, whose word is in the cache leaves the stored
  counter as it was. The only request it sends to the limiter is the read-only
  \<^verbatim>\<open>/status\<close> (none at all when the word is rejected by validation), never \<^verbatim>\<open>/check\<close>. The
  cache is left as it was too.
\<close>

theorem cache_hit_exempts_quota:
  assumes "decodeURIComponent ext (replace_first (lookup_prefix ty) [] (pathname req)) = Some word"
    and "getCached (CACHE w) now ty word = Some cached"
  shows "RATE_LIMITER (snd (handleLookup ty ext env now req w)) = RATE_LIMITER w
       \<and> requests_sent w (snd (handleLookup ty ext env now req w))
           = (if word = [] \<or> length word > 100 then [] else [''/status''])
       \<and> ''/check'' \<notin> set (requests_sent w (snd (handleLookup ty ext env now req w)))
       \<and> CACHE (snd (handleLookup ty ext env now req w)) = CACHE w"
  by (simp add: handleLookup_hit [OF assms] requests_sent_def validateWord_def)

theorem cache_hit_exempts_quota_witness:
  "decodeURIComponent (failing_ext NetworkError)
     (replace_first (lookup_prefix Define) [] (pathname (example_request ''GET'' ''/define/alpha'' ''user-key'')))
     = Some ''alpha''
   \<and> getCached (CACHE example_world) 5 Define ''alpha'' = Some example_entry
   \<and> RATE_LIMITER (snd (handleLookup Define (failing_ext NetworkError) example_env 5
        (example_request ''GET'' ''/define/alpha'' ''user-key'') example_world))
       = Some \<lparr>date = 0, count = 1\<rparr>
   \<and> requests_sent example_world (snd (handleLookup Define (failing_ext NetworkError) example_env 5
        (example_request ''GET'' ''/define/alpha'' ''user-key'') example_world))
       = [''/status'']"
proof -
  have h1: "decodeURIComponent (failing_ext NetworkError)
     (replace_first (lookup_prefix Define) [] (pathname (example_request ''GET'' ''/define/alpha'' ''user-key'')))
     = Some ''alpha''"
    by (simp add: example_defs eval_defs)
  have h2: "getCached (CACHE example_world) 5 Define ''alpha'' = Some example_entry"
    by (simp add: example_defs eval_defs)
  have r: "RATE_LIMITER example_world = Some \<lparr>date = 0, count = 1\<rparr>"
    by (simp add: example_world_def)
  show ?thesis
    using cache_hit_exempts_quota [OF h1 h2, of example_env] h1 h2 r by simp
qed

lemma handleLookup_miss_allowed:
  assumes "decodeURIComponent ext (replace_first (lookup_prefix ty) [] (pathname req)) = Some word"
    and "word \<noteq> []" and "length word \<le> 100"
    and "getCached (CACHE w) now ty word = None"
    and "allowed (fst (checkAndIncrement (DAILY_REQUEST_LIMIT env) now (RATE_LIMITER w)))"
  shows "handleLookup ty ext env now req w =
    (let rateLimit = fst (checkAndIncrement (DAILY_REQUEST_LIMIT env) now (RATE_LIMITER w));
         w1 = w\<lparr>RATE_LIMITER := snd (checkAndIncrement (DAILY_REQUEST_LIMIT env) now (RATE_LIMITER w)),
                RATE_LIMITER_requests := RATE_LIMITER_requests w @ [''/check'']\<rparr>
     in case upstream_call ty ext env word of
          Inr result \<Rightarrow>
            (Inr (Response_json (SuccessBody result False (info rateLimit))
                    200 [(''X-Cache'', Str ''MISS'')]),
             w1\<lparr>CACHE := setCache (CACHE w1) now ty word result (result_found result)\<rparr>)
        | Inl error \<Rightarrow> (handleMWError error rateLimit, w1))"
  using assms by (simp add: handleLookup_eq checkRateLimit_eq validateWord_def Let_def)

lemma upstream_call_failure:
  assumes "api_key ty env \<noteq> []"
    and "request ext (endpoint_of ty) word (api_key ty env) = Inl e"
  shows "upstream_call ty ext env word = Inl (MWError e)"
  using assms
  by (cases ty)
    (simp_all add: upstream_call_def api_key_def endpoint_of_def new_MerriamWebster_def
      falsy_def MerriamWebster_define_def MerriamWebster_synonyms_def)

text \<open>
  C8. Take a lookup whose word is valid and not in the cache, for which
  check-and-increment answers \<open>allowed = true\<close>, and whose upstream request, made with a
  configured key, fails with the error \<open>e\<close>. The handler answers the envelope
  \<^verbatim>\<open>UPSTREAM_ERROR\<close> with the quota status that check-and-increment returned; the cache
  is as it was; the stored counter is today's count plus 1, as check-and-increment left
  it, and nothing but \<^verbatim>\<open>/check\<close> was sent to the limiter.
\<close>

theorem upstream_failure_no_refund:
  assumes "decodeURIComponent ext (replace_first (lookup_prefix ty) [] (pathname req)) = Some word"
    and "word \<noteq> []" and "length word \<le> 100"
    and "getCached (CACHE w) now ty word = None"
    and "allowed (fst (checkAndIncrement (DAILY_REQUEST_LIMIT env) now (RATE_LIMITER w)))"
    and "api_key ty env \<noteq> []"
    and "request ext (endpoint_of ty) word (api_key ty env) = Inl e"
  shows "handleLookup ty ext env now req w =
    (Inr (Response_json
            (ErrorBody ''UPSTREAM_ERROR'' ''Dictionary service temporarily unavailable''
               (Some (info (fst (checkAndIncrement (DAILY_REQUEST_LIMIT env) now (RATE_LIMITER w))))))
            (if e = InvalidKeyError then 503 else 502) []),
     w\<lparr>RATE_LIMITER :=
         Some \<lparr>date = getTodayUTC now,
               count = effectiveCount (getTodayUTC now) (RATE_LIMITER w) + 1\<rparr>,
       RATE_LIMITER_requests := RATE_LIMITER_requests w @ [''/check'']\<rparr>)
    \<and> CACHE (snd (handleLookup ty ext env now req w)) = CACHE w"
proof -
  have s: "snd (checkAndIncrement (DAILY_REQUEST_LIMIT env) now (RATE_LIMITER w)) =
      Some \<lparr>date = getTodayUTC now,
               count = effectiveCount (getTodayUTC now) (RATE_LIMITER w) + 1\<rparr>"
    using assms(5) by (simp add: checkAndIncrement_allowed_iff checkAndIncrement_stored)
  have n: "(error_name e = ''InvalidKeyError'') = (e = InvalidKeyError)"
    by (cases e) (simp_all add: error_name_def)
  show ?thesis
    by (simp add: handleLookup_miss_allowed [OF assms(1-5)] upstream_call_failure [OF assms(6,7)]
        handleMWError_def Let_def s n)
qed

theorem upstream_failure_no_refund_witness:
  "decodeURIComponent (failing_ext TimeoutError)
     (replace_first (lookup_prefix Define) [] (pathname (example_request ''GET'' ''/define/beta'' ''user-key'')))
     = Some ''beta''
   \<and> ''beta'' \<noteq> [] \<and> length ''beta'' \<le> 100
   \<and> getCached (CACHE example_world) 5 Define ''beta'' = None
   \<and> allowed (fst (checkAndIncrement (DAILY_REQUEST_LIMIT example_env) 5 (RATE_LIMITER example_world)))
   \<and> api_key Define example_env \<noteq> []
   \<and> request (failing_ext TimeoutError) (endpoint_of Define) ''beta'' (api_key Define example_env)
       = Inl TimeoutError
   \<and> handleLookup Define (failing_ext TimeoutError) example_env 5
        (example_request ''GET'' ''/define/beta'' ''user-key'') example_world
      = (Inr (Response_json
            (ErrorBody ''UPSTREAM_ERROR'' ''Dictionary service temporarily unavailable''
               (Some \<lparr>remaining = 0, limit = 2, resetsAt = 86400000\<rparr>))
            502 []),
         example_world\<lparr>RATE_LIMITER := Some \<lparr>date = 0, count = 2\<rparr>,
           RATE_LIMITER_requests := [''/check'']\<rparr>)"
proof -
  have h1: "decodeURIComponent (failing_ext TimeoutError)
     (replace_first (lookup_prefix Define) [] (pathname (example_request ''GET'' ''/define/beta'' ''user-key'')))
     = Some ''beta''"
    by (simp add: example_defs eval_defs)
  have h2: "''beta'' \<noteq> []" and h3: "length ''beta'' \<le> 100" by simp_all
  have h4: "getCached (CACHE example_world) 5 Define ''beta'' = None"
    by (simp add: example_defs eval_defs)
  have c: "checkAndIncrement (DAILY_REQUEST_LIMIT example_env) 5 (RATE_LIMITER example_world)
      = (\<lparr>remaining = 0, limit = 2, resetsAt = 86400000, allowed = True\<rparr>,
         Some \<lparr>date = 0, count = 2\<rparr>)"
    by (simp add: example_defs checkAndIncrement_def getTodayUTC_def getNextMidnightUTC_def
        MS_PER_DAY_def Let_def)
  have h5: "allowed (fst (checkAndIncrement (DAILY_REQUEST_LIMIT example_env) 5 (RATE_LIMITER example_world)))"
    by (simp add: c)
  have h6: "api_key Define example_env \<noteq> []"
    by (simp add: api_key_def example_env_def)
  have h7: "request (failing_ext TimeoutError) (endpoint_of Define) ''beta'' (api_key Define example_env)
       = Inl TimeoutError"
    by (simp add: failing_ext_def)
  have e: "effectiveCount 0 (RATE_LIMITER example_world) = 1"
    by (simp add: effectiveCount_def example_world_def)
  have t: "getTodayUTC 5 = 0"
    by (simp add: getTodayUTC_def MS_PER_DAY_def)
  have r: "RATE_LIMITER_requests example_world = []"
    by (simp add: example_world_def)
  show ?thesis
    using upstream_failure_no_refund [OF h1 h2 h3 h4 h5 h6 h7] h1 h2 h3 h4 h5 h6 h7
    by (simp add: c e t r info_def)
qed

lemma handleCacheDelete_eq:
  assumes "cache_path_match (pathname req) = Some (ty, raw)"
    and "decodeURIComponent ext raw = Some word"
    and "word \<noteq> []" and "length word \<le> 100"
  shows "handleCacheDelete ext env now req w =
     (if getCached (CACHE w) now ty word = None then
        (Inr (Response_json
                (ErrorBody ''NOT_FOUND''
                   (''No cached entry for '' @ type_string ty @ '':'' @ word) None)
                404 []), w)
      else
        (Inr (Response_json (DeletedBody ty word (getCacheKey ty word)) 200 []),
         w\<lparr>CACHE := (CACHE w)(getCacheKey ty word := None)\<rparr>))"
  using assms
  by (simp add: handleCacheDelete_def hasCache_def getCached_def deleteCache_def kv_delete_def
      Let_def)

text \<open>
  C9. Take an invalidation request whose path gives a type and a valid word. When the
  cache has no entry for them, the answer is 404 \<^verbatim>\<open>NOT_FOUND\<close> and the state is as it was.
  When it has one, the answer is 200 with \<open>deleted = true\<close>, the cache is the old one without
  the key of that type and word and nothing else changed, and a read of that type and
  word returns nothing at any instant. In both cases the stored counter is as it was and
  no request was sent to the limiter.
\<close>

theorem invalidation_correct:
  assumes "cache_path_match (pathname req) = Some (ty, raw)"
    and "decodeURIComponent ext raw = Some word"
    and "word \<noteq> []" and "length word \<le> 100"
  shows "(getCached (CACHE w) now ty word = None \<longrightarrow>
            handleCacheDelete ext env now req w =
              (Inr (Response_json
                      (ErrorBody ''NOT_FOUND''
                         (''No cached entry for '' @ type_string ty @ '':'' @ word) None)
                      404 []), w))
       \<and> (getCached (CACHE w) now ty word \<noteq> None \<longrightarrow>
            fst (handleCacheDelete ext env now req w) =
              Inr (Response_json (DeletedBody ty word (getCacheKey ty word)) 200 [])
            \<and> CACHE (snd (handleCacheDelete ext env now req w)) =
                (CACHE w)(getCacheKey ty word := None)
            \<and> getCached (CACHE (snd (handleCacheDelete ext env now req w))) t ty word = None)
       \<and> RATE_LIMITER (snd (handleCacheDelete ext env now req w)) = RATE_LIMITER w
       \<and> RATE_LIMITER_requests (snd (handleCacheDelete ext env now req w))
           = RATE_LIMITER_requests w"
  by (simp add: handleCacheDelete_eq [OF assms] getCached_def kv_get_def)

theorem invalidation_correct_witness:
  "cache_path_match (pathname (example_request ''DELETE'' ''/cache/define/test'' ''admin-key''))
     = Some (Define, ''test'')
   \<and> decodeURIComponent (failing_ext NetworkError) ''test'' = Some ''test''
   \<and> ''test'' \<noteq> [] \<and> length ''test'' \<le> 100
   \<and> getCached (CACHE example_world) 5 Define ''test'' = None
   \<and> handleCacheDelete (failing_ext NetworkError) example_env 5
         (example_request ''DELETE'' ''/cache/define/test'' ''admin-key'') example_world
       = (Inr (Response_json (ErrorBody ''NOT_FOUND'' ''No cached entry for define:test'' None)
                 404 []), example_world)
   \<and> cache_path_match (pathname (example_request ''DELETE'' ''/cache/define/Alpha'' ''admin-key''))
       = Some (Define, ''Alpha'')
   \<and> decodeURIComponent (failing_ext NetworkError) ''Alpha'' = Some ''Alpha''
   \<and> ''Alpha'' \<noteq> [] \<and> length ''Alpha'' \<le> 100
   \<and> getCached (CACHE example_world) 5 Define ''Alpha'' \<noteq> None
   \<and> fst (handleCacheDelete (failing_ext NetworkError) example_env 5
         (example_request ''DELETE'' ''/cache/define/Alpha'' ''admin-key'') example_world)
       = Inr (Response_json (DeletedBody Define ''Alpha'' ''define|alpha'') 200 [])
   \<and> getCached (CACHE (snd (handleCacheDelete (failing_ext NetworkError) example_env 5
         (example_request ''DELETE'' ''/cache/define/Alpha'' ''admin-key'') example_world)))
         5 Define ''Alpha'' = None"
proof -
  have a1: "cache_path_match (pathname (example_request ''DELETE'' ''/cache/define/test'' ''admin-key''))
     = Some (Define, ''test'')"
    by (simp add: cache_path_match_def example_request_def startsWith_def no_line_terminator_def)
  have a2: "decodeURIComponent (failing_ext NetworkError) ''test'' = Some ''test''"
    by (simp add: failing_ext_def)
  have a3: "''test'' \<noteq> []" and a4: "length ''test'' \<le> 100" by simp_all
  have a5: "getCached (CACHE example_world) 5 Define ''test'' = None"
    by (simp add: example_defs eval_defs)
  have b1: "cache_path_match (pathname (example_request ''DELETE'' ''/cache/define/Alpha'' ''admin-key''))
     = Some (Define, ''Alpha'')"
    by (simp add: cache_path_match_def example_request_def startsWith_def no_line_terminator_def)
  have b2: "decodeURIComponent (failing_ext NetworkError) ''Alpha'' = Some ''Alpha''"
    by (simp add: failing_ext_def)
  have b3: "''Alpha'' \<noteq> []" and b4: "length ''Alpha'' \<le> 100" by simp_all
  have k: "getCacheKey Define ''Alpha'' = ''define|alpha''"
    by code_simp
  have b5: "getCached (CACHE example_world) 5 Define ''Alpha'' \<noteq> None"
    by (simp add: getCached_def k kv_get_def example_world_def)
  have t: "type_string Define = ''define''"
    by (simp add: type_string_def)
  have ra: "handleCacheDelete (failing_ext NetworkError) example_env 5
         (example_request ''DELETE'' ''/cache/define/test'' ''admin-key'') example_world
       = (Inr (Response_json (ErrorBody ''NOT_FOUND'' ''No cached entry for define:test'' None)
                 404 []), example_world)"
    using invalidation_correct [OF a1 a2 a3 a4, of example_world 5 example_env] a5
    by (simp add: t)
  have rb: "fst (handleCacheDelete (failing_ext NetworkError) example_env 5
         (example_request ''DELETE'' ''/cache/define/Alpha'' ''admin-key'') example_world)
       = Inr (Response_json (DeletedBody Define ''Alpha'' ''define|alpha'') 200 [])
     \<and> getCached (CACHE (snd (handleCacheDelete (failing_ext NetworkError) example_env 5
         (example_request ''DELETE'' ''/cache/define/Alpha'' ''admin-key'') example_world)))
         5 Define ''Alpha'' = None"
    using invalidation_correct [OF b1 b2 b3 b4, of example_world 5 example_env 5] b5
    by (simp only: k) blast
  show ?thesis
    using a1 a2 a3 a4 a5 ra b1 b2 b3 b4 b5 rb by blast
qed

lemma startsWith_lookup_prefix:
  assumes "startsWith p (lookup_prefix ty)"
  shows "p \<noteq> ''/health''" and "p \<noteq> ''/rate-limit/status''"
    and "startsWith p ''/define/'' \<longleftrightarrow> ty = Define"
    and "ty = Synonyms \<Longrightarrow> startsWith p ''/synonyms/''"
proof -
  show "p \<noteq> ''/health''" "p \<noteq> ''/rate-limit/status''"
    using assms by (cases ty; auto simp add: startsWith_def lookup_prefix_def)+
  show "ty = Synonyms \<Longrightarrow> startsWith p ''/synonyms/''"
    using assms by (simp add: lookup_prefix_def)
  show "startsWith p ''/define/'' \<longleftrightarrow> ty = Define"
  proof (cases ty)
    case Define
    then show ?thesis using assms by (simp add: lookup_prefix_def)
  next
    case Synonyms
    have "take (length ''/synonyms/'') p = ''/synonyms/''"
      using assms Synonyms by (simp add: lookup_prefix_def startsWith_def)
    then have "p = ''/synonyms/'' @ drop (length ''/synonyms/'') p"
      using append_take_drop_id [of "length ''/synonyms/''" p] by simp
    moreover have "\<not> startsWith (''/synonyms/'' @ q) ''/define/''" for q
      by (simp add: startsWith_def)
    ultimately have "\<not> startsWith p ''/define/''" by metis
    then show ?thesis using Synonyms by simp
  qed
qed

lemma route_lookup:
  assumes "startsWith (pathname req) (lookup_prefix ty)" and "validateUserAuth req env"
  shows "route ext env now req w = handleLookup ty ext env now req w"
  using startsWith_lookup_prefix [OF assms(1)] assms(2)
  by (cases ty) (simp_all add: route_def handleLookup_def Let_def)

lemma handleRequest_not_options:
  assumes "http_method req \<noteq> ''OPTIONS''"
  shows "status (fst (handleRequest ext env now req w)) =
           (case fst (route ext env now req w) of
              Inr response \<Rightarrow> status response | Inl error \<Rightarrow> 500)"
    and "body (fst (handleRequest ext env now req w)) =
           (case fst (route ext env now req w) of
              Inr response \<Rightarrow> body response
            | Inl error \<Rightarrow> ErrorBody ''INTERNAL_ERROR'' ''An unexpected error occurred'' None)"
  using assms
  by (simp_all add: handleRequest_def withCors_def internalErrorResponse_def Response_json_def
      Let_def split: prod.splits sum.splits)

text \<open>
  C10. Take a lookup, for either type, that reaches the upstream client (authorised,
  valid word, not cached, allowed by the limiter), and let the client throw \<open>err\<close>. When
  \<open>err\<close> is a \<^verbatim>\<open>MerriamWebsterError\<close>, the handler answers the envelope \<^verbatim>\<open>UPSTREAM_ERROR\<close>
  with the HTTP status 503 for \<^verbatim>\<open>InvalidKeyError\<close> and 502 for each other class, and the
  router returns it. When \<open>err\<close> is any other error, the handler throws it again, and the
  router answers 500 \<^verbatim>\<open>INTERNAL_ERROR\<close>.
\<close>

theorem upstream_error_classification:
  assumes "http_method req \<noteq> ''OPTIONS''"
    and "startsWith (pathname req) (lookup_prefix ty)"
    and "validateUserAuth req env"
    and "decodeURIComponent ext (replace_first (lookup_prefix ty) [] (pathname req)) = Some word"
    and "word \<noteq> []" and "length word \<le> 100"
    and "getCached (CACHE w) now ty word = None"
    and "allowed (fst (checkAndIncrement (DAILY_REQUEST_LIMIT env) now (RATE_LIMITER w)))"
    and "upstream_call ty ext env word = Inl err"
  shows "fst (handleLookup ty ext env now req w) =
           (case err of
              MWError e \<Rightarrow>
                Inr (Response_json
                       (ErrorBody ''UPSTREAM_ERROR'' ''Dictionary service temporarily unavailable''
                          (Some (info (fst (checkAndIncrement (DAILY_REQUEST_LIMIT env) now
                                              (RATE_LIMITER w))))))
                       (if e = InvalidKeyError then 503 else 502) [])
            | OtherError n \<Rightarrow> Inl err)
       \<and> status (fst (handleRequest ext env now req w)) =
           (case err of
              MWError e \<Rightarrow> if e = InvalidKeyError then 503 else 502
            | OtherError n \<Rightarrow> 500)
       \<and> body (fst (handleRequest ext env now req w)) =
           (case err of
              MWError e \<Rightarrow>
                ErrorBody ''UPSTREAM_ERROR'' ''Dictionary service temporarily unavailable''
                  (Some (info (fst (checkAndIncrement (DAILY_REQUEST_LIMIT env) now
                                      (RATE_LIMITER w)))))
            | OtherError n \<Rightarrow>
                ErrorBody ''INTERNAL_ERROR'' ''An unexpected error occurred'' None)"
proof -
  have n: "(error_name e = ''InvalidKeyError'') = (e = InvalidKeyError)" for e
    by (cases e) (simp_all add: error_name_def)
  have h: "fst (handleLookup ty ext env now req w) =
      handleMWError err (fst (checkAndIncrement (DAILY_REQUEST_LIMIT env) now (RATE_LIMITER w)))"
    by (simp add: handleLookup_miss_allowed [OF assms(4-8)] assms(9) Let_def)
  have r: "route ext env now req w = handleLookup ty ext env now req w"
    using assms(2,3) by (rule route_lookup)
  show ?thesis
    by (cases err)
      (simp_all add: handleRequest_not_options [OF assms(1)] r h handleMWError_def n Let_def
        Response_json_def)
qed

theorem upstream_error_classification_witness:
  "http_method (example_request ''GET'' ''/define/beta'' ''user-key'') \<noteq> ''OPTIONS''
   \<and> startsWith (pathname (example_request ''GET'' ''/define/beta'' ''user-key''))
        (lookup_prefix Define)
   \<and> validateUserAuth (example_request ''GET'' ''/define/beta'' ''user-key'') example_env
   \<and> decodeURIComponent (failing_ext InvalidKeyError)
        (replace_first (lookup_prefix Define) []
          (pathname (example_request ''GET'' ''/define/beta'' ''user-key''))) = Some ''beta''
   \<and> ''beta'' \<noteq> [] \<and> length ''beta'' \<le> 100
   \<and> getCached (CACHE example_world) 5 Define ''beta'' = None
   \<and> allowed (fst (checkAndIncrement (DAILY_REQUEST_LIMIT example_env) 5
                      (RATE_LIMITER example_world)))
   \<and> upstream_call Define (failing_ext InvalidKeyError) example_env ''beta''
       = Inl (MWError InvalidKeyError)
   \<and> status (fst (handleRequest (failing_ext InvalidKeyError) example_env 5
        (example_request ''GET'' ''/define/beta'' ''user-key'') example_world)) = 503
   \<and> upstream_call Define (failing_ext TimeoutError) example_env ''beta''
       = Inl (MWError TimeoutError)
   \<and> status (fst (handleRequest (failing_ext TimeoutError) example_env 5
        (example_request ''GET'' ''/define/beta'' ''user-key'') example_world)) = 502
   \<and> upstream_call Define (failing_ext TimeoutError) (example_env\<lparr>MW_DICTIONARY_KEY := []\<rparr>)
        ''beta'' = Inl (OtherError ''Error'')
   \<and> status (fst (handleRequest (failing_ext TimeoutError)
        (example_env\<lparr>MW_DICTIONARY_KEY := []\<rparr>) 5
        (example_request ''GET'' ''/define/beta'' ''user-key'') example_world)) = 500
   \<and> body (fst (handleRequest (failing_ext TimeoutError)
        (example_env\<lparr>MW_DICTIONARY_KEY := []\<rparr>) 5
        (example_request ''GET'' ''/define/beta'' ''user-key'') example_world))
       = ErrorBody ''INTERNAL_ERROR'' ''An unexpected error occurred'' None"
proof -
  let ?req = "example_request ''GET'' ''/define/beta'' ''user-key''"
  let ?env' = "example_env\<lparr>MW_DICTIONARY_KEY := []\<rparr>"
  have h1: "http_method ?req \<noteq> ''OPTIONS''"
    by (simp add: example_request_def)
  have h2: "startsWith (pathname ?req) (lookup_prefix Define)"
    by (simp add: example_request_def eval_defs)
  have h3: "validateUserAuth ?req example_env" and h3': "validateUserAuth ?req ?env'"
    by (simp_all add: validateUserAuth_def extractBearerToken_def startsWith_def
        example_request_def example_env_def)
  have h4: "decodeURIComponent (failing_ext e)
        (replace_first (lookup_prefix Define) [] (pathname ?req)) = Some ''beta''" for e
    by (simp add: example_defs eval_defs)
  have h5: "''beta'' \<noteq> []" and h6: "length ''beta'' \<le> 100" by simp_all
  have h7: "getCached (CACHE example_world) 5 Define ''beta'' = None"
    by (simp add: example_defs eval_defs)
  have h8: "allowed (fst (checkAndIncrement (DAILY_REQUEST_LIMIT example_env) 5
                      (RATE_LIMITER example_world)))"
    and h8': "allowed (fst (checkAndIncrement (DAILY_REQUEST_LIMIT ?env') 5
                      (RATE_LIMITER example_world)))"
    by (simp_all add: example_defs checkAndIncrement_def getTodayUTC_def MS_PER_DAY_def Let_def)
  have u: "upstream_call Define (failing_ext e) example_env ''beta'' = Inl (MWError e)" for e
    by (simp add: upstream_call_def new_MerriamWebster_def falsy_def MerriamWebster_define_def
        example_defs)
  have u': "upstream_call Define (failing_ext TimeoutError) ?env' ''beta''
       = Inl (OtherError ''Error'')"
    by (simp add: upstream_call_def new_MerriamWebster_def falsy_def example_defs)
  have a: "status (fst (handleRequest (failing_ext InvalidKeyError) example_env 5 ?req
              example_world)) = 503"
    using upstream_error_classification [OF h1 h2 h3 h4 h5 h6 h7 h8 u] by simp
  have b: "status (fst (handleRequest (failing_ext TimeoutError) example_env 5 ?req
              example_world)) = 502"
    using upstream_error_classification [OF h1 h2 h3 h4 h5 h6 h7 h8 u] by simp
  have c: "status (fst (handleRequest (failing_ext TimeoutError) ?env' 5 ?req
              example_world)) = 500
      \<and> body (fst (handleRequest (failing_ext TimeoutError) ?env' 5 ?req example_world))
          = ErrorBody ''INTERNAL_ERROR'' ''An unexpected error occurred'' None"
    using upstream_error_classification [OF h1 h2 h3' h4 h5 h6 h7 h8' u'] by simp
  show ?thesis
    using h1 h2 h3 h4 [of InvalidKeyError] h5 h6 h7 h8 u [of InvalidKeyError] a
      u [of TimeoutError] b u' c
    by blast
qed

end
